theory Spec2Isabelle
  imports Complex_Main "HOL-Library.Word" "HOL-Library.Product_Lexorder" "HOL-Library.Multiset"
begin

section \<open>Point set neighborhoods: kernel, accessor and data model\<close>

text \<open>
  The development follows \<^verbatim>\<open>CGAL/Classification/Point_set_neighborhood.h\<close>.
  The class is a template over a geometric kernel; the kernel's number type \<open>FT\<close> is
  taken to be the real numbers with exact arithmetic (the header itself stores distances
  and the voxel size in \<^verbatim>\<open>double\<close>; rounding is not represented, every concrete value
  used below is a dyadic rational that a \<^verbatim>\<open>double\<close> holds exactly, and so is every
  quotient and centroid computed from them).
  A \<open>Point\<close> is its coordinate triple; triples are ordered lexicographically, which is
  the order \<^verbatim>\<open>std::map<Point, ...>\<close> iterates in.
\<close>

type_synonym FT = real
type_synonym Point = "FT \<times> FT \<times> FT"

definition coord_x :: "Point \<Rightarrow> FT" where
  "coord_x p = fst p"

definition coord_y :: "Point \<Rightarrow> FT" where
  "coord_y p = fst (snd p)"

definition coord_z :: "Point \<Rightarrow> FT" where
  "coord_z p = snd (snd p)"

text \<open>
  Modelled from the spec: \<^verbatim>\<open>CGAL::squared_distance\<close> is a kernel primitive declared in
  a header that is not part of the sources at hand. It is the sum of the squared
  coordinate differences.
\<close>

definition squared_distance :: "Point \<Rightarrow> Point \<Rightarrow> FT" where
  "squared_distance p q =
     (coord_x p - coord_x q) * (coord_x p - coord_x q)
       + (coord_y p - coord_y q) * (coord_y p - coord_y q)
       + (coord_z p - coord_z q) * (coord_z p - coord_z q)"

text \<open>
  Modelled from the spec: the Euclidean distance in which the specification states the
  results of the queries; the header never computes it.
\<close>

definition euclidean_distance :: "Point \<Rightarrow> Point \<Rightarrow> FT" where
  "euclidean_distance p q = sqrt (squared_distance p q)"

text \<open>
  Modelled from the spec: \<^verbatim>\<open>CGAL::centroid\<close> is a kernel primitive declared in a header
  that is not part of the sources at hand. It is the arithmetic mean of the coordinates of
  the points; the header calls it on non-empty groups only.
\<close>

definition centroid :: "Point list \<Rightarrow> Point" where
  "centroid ps =
     (sum_list (map coord_x ps) / of_nat (length ps),
      sum_list (map coord_y ps) / of_nat (length ps),
      sum_list (map coord_z ps) / of_nat (length ps))"

text \<open>
  \<^verbatim>\<open>std::numeric_limits<double>::max()\<close>, the largest finite binary64 value:
  53 one bits scaled by two to the power 971.
\<close>

definition double_max :: FT where
  "double_max = (2 ^ 53 - 1) * 2 ^ 971"

text \<open>
  \<^verbatim>\<open>My_point_property_map\<close>: the input range together with the caller's point map.
  \<open>get ppmap k\<close> reads the point of the \<open>k\<close>-th item of the range; the class only ever
  stores positions below the size of the range.
\<close>

record 'a My_point_property_map =
  input :: "'a list"
  point_map :: "'a \<Rightarrow> Point"

definition get :: "'a My_point_property_map \<Rightarrow> nat \<Rightarrow> Point" where
  "get ppmap k = point_map ppmap (input ppmap ! k)"

text \<open>
  Modelled from the spec: \<^verbatim>\<open>Kd_tree\<close> lives in the spatial searching package, which is
  not part of the sources at hand. A tree is represented by the sequence of indices it was
  built over and its traits (the property map); building it changes neither.
\<close>

record 'a Tree =
  tree_indices :: "nat list"
  traits :: "'a My_point_property_map"

text \<open>
  Modelled from the spec: \<^verbatim>\<open>Kd_tree::search\<close> with a \<^verbatim>\<open>Fuzzy_sphere\<close>, both absent from
  the sources at hand. The range query with centre \<open>q\<close>, radius \<open>r\<close> and tolerance
  \<open>eps\<close> emits every stored index whose point lies within \<open>r\<close> of \<open>q\<close>; the points of the
  shell between \<open>r\<close> and \<open>r (1 + eps)\<close>, which may or may not be emitted, are left
  out. Membership is decided on squared distances.
\<close>

definition search :: "'a Tree \<Rightarrow> Point \<Rightarrow> FT \<Rightarrow> FT \<Rightarrow> nat list" where
  "search t q r eps =
     filter (\<lambda>i. squared_distance (get (traits t) i) q \<le> r * r) (tree_indices t)"

text \<open>
  Modelled from the spec: \<^verbatim>\<open>Orthogonal_k_neighbor_search\<close>, absent from the sources at
  hand. The search emits the \<open>k\<close> stored indices nearest to \<open>q\<close> in non-decreasing order
  of distance, equidistant points by ascending index, and all of the stored indices when
  there are fewer than \<open>k\<close>. Its count has the type \<^verbatim>\<open>unsigned int\<close>. The tolerance 0
  and the flag that asks for the nearest (not the furthest) neighbours are the same at the
  only call and are not arguments here.
\<close>

definition Knn :: "'a Tree \<Rightarrow> Point \<Rightarrow> 32 word \<Rightarrow> 'a My_point_property_map \<Rightarrow> nat list" where
  "Knn t q n distance =
     take (unat n) (sort_key (\<lambda>i. (squared_distance (get distance i) q, i)) (tree_indices t))"

subsection \<open>The neighborhood object and its constructors\<close>

text \<open>
  \<open>m_tree\<close> is a pointer to a heap-allocated tree: \<open>None\<close> is the null pointer.
  The errors are the build errors the specification names. No constructor of the header
  throws or returns early, so a constructor has no error branch.
\<close>

record 'a Point_set_neighborhood =
  m_tree :: "'a Tree option"
  m_distance :: "'a My_point_property_map"

datatype build_error = InvalidVoxelSize | CoordinateOverflow

text \<open>
  The default constructor leaves \<open>m_distance\<close> default-constructed; what a
  default-constructed property map holds is given as the parameter \<open>pmap0\<close>.
\<close>

definition Point_set_neighborhood_default ::
    "'a My_point_property_map \<Rightarrow> 'a Point_set_neighborhood" where
  "Point_set_neighborhood_default pmap0 = \<lparr>m_tree = None, m_distance = pmap0\<rparr>"

text \<open>The constructor over the whole range: the tree is built over \<open>0, \<dots>, size - 1\<close>.\<close>

definition Point_set_neighborhood_full ::
    "'a list \<Rightarrow> ('a \<Rightarrow> Point) \<Rightarrow> build_error + 'a Point_set_neighborhood" where
  "Point_set_neighborhood_full inp pm =
     (let pmap = \<lparr>input = inp, point_map = pm\<rparr>
      in Inr \<lparr>m_tree = Some \<lparr>tree_indices = [0 ..< length inp], traits = pmap\<rparr>,
              m_distance = pmap\<rparr>)"

subsection \<open>Voxel simplification\<close>

text \<open>
  The reference point \<^verbatim>\<open>ref\<close> of a point: the floors of its coordinates divided by the
  voxel size, held in the kernel's number type. The quotient is taken exactly here; the
  header takes it in binary64, where it is the same whenever the exact quotient is a
  binary64 value, as it is at every input evaluated below, and where it may be rounded or
  overflow otherwise. Nothing below is stated of the keys of inputs in general: the
  general results hold whatever the keys are, and the keys enter only the evaluations at
  the sample inputs. With a voxel size of zero the quotients of the header are infinite or
  not numbers, whereas division by zero yields zero here; that case is left open.
\<close>

definition voxel_ref :: "Point \<Rightarrow> FT \<Rightarrow> Point" where
  "voxel_ref p voxel_size =
     (of_int \<lfloor>coord_x p / voxel_size\<rfloor>,
      of_int \<lfloor>coord_y p / voxel_size\<rfloor>,
      of_int \<lfloor>coord_z p / voxel_size\<rfloor>)"

text \<open>
  Modelled from the spec: the cell of a point, which the specification gives as the
  integer triple of the floors of the coordinates divided by the voxel size. The header
  has no such triple: its key is the reference point above.
\<close>

definition voxel_cell :: "Point \<Rightarrow> FT \<Rightarrow> int \<times> int \<times> int" where
  "voxel_cell p voxel_size =
     (\<lfloor>coord_x p / voxel_size\<rfloor>, \<lfloor>coord_y p / voxel_size\<rfloor>, \<lfloor>coord_z p / voxel_size\<rfloor>)"

text \<open>
  Modelled from the spec: the range of the integer voxel key, of which the specification
  says that a 64-bit signed key is typical. The header has no integer key.
\<close>

definition int64_overflow :: "int \<Rightarrow> bool" where
  "int64_overflow v = (v < - (2 ^ 63) \<or> 2 ^ 63 \<le> v)"

text \<open>
  Modelled from the spec: the voxel key of a point overflows when one of its cell
  coordinates is outside the range of the key type.
\<close>

definition voxel_key_overflows :: "Point \<Rightarrow> FT \<Rightarrow> bool" where
  "voxel_key_overflows p voxel_size =
     (int64_overflow \<lfloor>coord_x p / voxel_size\<rfloor>
      \<or> int64_overflow \<lfloor>coord_y p / voxel_size\<rfloor>
      \<or> int64_overflow \<lfloor>coord_z p / voxel_size\<rfloor>)"

text \<open>
  The grid is a \<^verbatim>\<open>std::map\<close> from the cell's reference point to the indices of the
  cell: an association list kept in ascending key order. \<open>grid_insert\<close> is the body of the
  first loop: \<^verbatim>\<open>grid.insert\<close> of an empty group (which leaves an existing group as it is)
  followed by \<^verbatim>\<open>push_back\<close> of the index on the group found or created.
  \<open>fill_grid\<close> is the loop over the indices.
\<close>

fun grid_insert :: "Point \<Rightarrow> nat \<Rightarrow> (Point \<times> nat list) list \<Rightarrow> (Point \<times> nat list) list" where
  "grid_insert ref i [] = [(ref, [i])]"
| "grid_insert ref i ((key, pts) # grid) =
     (if ref = key then (key, pts @ [i]) # grid
      else if ref < key then (ref, [i]) # (key, pts) # grid
      else (key, pts) # grid_insert ref i grid)"

fun fill_grid ::
    "'a My_point_property_map \<Rightarrow> FT \<Rightarrow> nat list \<Rightarrow> (Point \<times> nat list) list
      \<Rightarrow> (Point \<times> nat list) list" where
  "fill_grid ppmap voxel_size [] grid = grid"
| "fill_grid ppmap voxel_size (i # indices) grid =
     fill_grid ppmap voxel_size indices
       (grid_insert (voxel_ref (get ppmap i) voxel_size) i grid)"

text \<open>
  The second loop visits the groups in key order and pushes one index for each.
  \<open>closest_loop\<close> is its inner loop over the group, with the two variables \<open>chosen\<close> and
  \<open>min_dist\<close>; \<open>representative\<close> runs it from \<open>chosen = 0\<close> and
  \<open>min_dist = double_max\<close> against the centroid of the group.
\<close>

fun closest_loop ::
    "'a My_point_property_map \<Rightarrow> Point \<Rightarrow> nat list \<Rightarrow> nat \<Rightarrow> FT \<Rightarrow> nat" where
  "closest_loop ppmap c [] chosen min_dist = chosen"
| "closest_loop ppmap c (i # pts) chosen min_dist =
     (let d = squared_distance (get ppmap i) c
      in if d < min_dist then closest_loop ppmap c pts i d
         else closest_loop ppmap c pts chosen min_dist)"

definition representative :: "'a My_point_property_map \<Rightarrow> nat list \<Rightarrow> nat" where
  "representative ppmap pts =
     closest_loop ppmap (centroid (map (get ppmap) pts)) pts 0 double_max"

definition voxelize_point_set ::
    "nat list \<Rightarrow> 'a My_point_property_map \<Rightarrow> FT \<Rightarrow> nat list" where
  "voxelize_point_set indices ppmap voxel_size =
     map (\<lambda>(key, pts). representative ppmap pts) (fill_grid ppmap voxel_size indices [])"

text \<open>The simplifying constructor: the tree is built over the representatives.\<close>

definition Point_set_neighborhood_voxel ::
    "'a list \<Rightarrow> ('a \<Rightarrow> Point) \<Rightarrow> FT \<Rightarrow> build_error + 'a Point_set_neighborhood" where
  "Point_set_neighborhood_voxel inp pm voxel_size =
     (let pmap = \<lparr>input = inp, point_map = pm\<rparr>;
          indices = voxelize_point_set [0 ..< length inp] pmap voxel_size
      in Inr \<lparr>m_tree = Some \<lparr>tree_indices = indices, traits = pmap\<rparr>,
              m_distance = pmap\<rparr>)"

subsection \<open>Queries\<close>

text \<open>
  Both private queries start with \<^verbatim>\<open>CGAL_assertion (m_tree != NULL)\<close>; a violated
  assertion is the error branch. \<open>k_neighbors\<close> receives a \<^verbatim>\<open>std::size_t\<close> (64 bits) and
  narrows it to \<^verbatim>\<open>unsigned int\<close> (32 bits) for the search.
\<close>

datatype query_failure = Assertion_violation

definition range_neighbors ::
    "'a Point_set_neighborhood \<Rightarrow> Point \<Rightarrow> FT \<Rightarrow> query_failure + nat list" where
  "range_neighbors nb query radius_neighbors =
     (case m_tree nb of
        None \<Rightarrow> Inl Assertion_violation
      | Some t \<Rightarrow> Inr (search t query radius_neighbors 0))"

definition k_neighbors ::
    "'a Point_set_neighborhood \<Rightarrow> Point \<Rightarrow> 64 word \<Rightarrow> query_failure + nat list" where
  "k_neighbors nb query n =
     (case m_tree nb of
        None \<Rightarrow> Inl Assertion_violation
      | Some t \<Rightarrow> Inr (Knn t query (ucast n) (m_distance nb)))"

text \<open>
  The query functors hold the neighborhood and their parameter. Applying one forwards to
  the private query. \<^verbatim>\<open>operator()\<close> returns \<^verbatim>\<open>void\<close> and throws nothing: what the caller
  of the k-neighbour functor receives is the emitted sequence, and no status beside it.
\<close>

record 'a K_neighbor_query =
  kq_neighborhood :: "'a Point_set_neighborhood"
  kq_k :: "64 word"

record 'a Range_neighbor_query =
  rq_neighborhood :: "'a Point_set_neighborhood"
  rq_radius :: FT

datatype query_status = No_status | UnderfullResult

definition k_neighbor_query :: "'a Point_set_neighborhood \<Rightarrow> 64 word \<Rightarrow> 'a K_neighbor_query" where
  "k_neighbor_query nb n = \<lparr>kq_neighborhood = nb, kq_k = n\<rparr>"

definition range_neighbor_query :: "'a Point_set_neighborhood \<Rightarrow> FT \<Rightarrow> 'a Range_neighbor_query" where
  "range_neighbor_query nb r = \<lparr>rq_neighborhood = nb, rq_radius = r\<rparr>"

definition K_neighbor_query_apply ::
    "'a K_neighbor_query \<Rightarrow> Point \<Rightarrow> query_failure + query_status \<times> nat list" where
  "K_neighbor_query_apply kq query =
     (case k_neighbors (kq_neighborhood kq) query (kq_k kq) of
        Inl e \<Rightarrow> Inl e
      | Inr out \<Rightarrow> Inr (No_status, out))"

definition Range_neighbor_query_apply ::
    "'a Range_neighbor_query \<Rightarrow> Point \<Rightarrow> query_failure + nat list" where
  "Range_neighbor_query_apply rq query =
     range_neighbors (rq_neighborhood rq) query (rq_radius rq)"

text \<open>The index set of a neighborhood: the indices its tree stores.\<close>

definition index_set :: "'a Point_set_neighborhood \<Rightarrow> nat list" where
  "index_set nb = (case m_tree nb of None \<Rightarrow> [] | Some t \<Rightarrow> tree_indices t)"

subsection \<open>Sample inputs\<close>

text \<open>
  Small clouds on which the results below are evaluated. The items of the range are the
  points themselves and the point map is the identity.
\<close>

definition cloud3 :: "Point list" where
  "cloud3 = [(0, 0, 0), (3, 0, 0), (1, 0, 0)]"

definition nb_cloud3 :: "Point Point_set_neighborhood" where
  "nb_cloud3 =
     \<lparr>m_tree = Some \<lparr>tree_indices = [0, 1, 2], traits = \<lparr>input = cloud3, point_map = id\<rparr>\<rparr>,
      m_distance = \<lparr>input = cloud3, point_map = id\<rparr>\<rparr>"

definition cloud_ties :: "Point list" where
  "cloud_ties = [(1, 0, 0), (0, 2, 0), (0, 0, 2), (5, 0, 0)]"

definition nb_cloud_ties :: "Point Point_set_neighborhood" where
  "nb_cloud_ties =
     \<lparr>m_tree = Some \<lparr>tree_indices = [0, 1, 2, 3],
                      traits = \<lparr>input = cloud_ties, point_map = id\<rparr>\<rparr>,
      m_distance = \<lparr>input = cloud_ties, point_map = id\<rparr>\<rparr>"

text \<open>
  Clouds with one far point: with voxel size \<open>2 ^ 700\<close> the points \<open>(0, 0, 0)\<close> and
  \<open>(2 ^ 600, 0, 0)\<close> share the cell \<open>(0, 0, 0)\<close>, and their squared distance to the
  centroid of that cell is \<open>2 ^ 1198\<close>, which is above \<open>double_max\<close> (in binary64 the
  product overflows to infinity, which is not below \<open>double_max\<close> either).
\<close>

definition cloud_far :: "Point list" where
  "cloud_far = [(- 1, 0, 0), (0, 0, 0), (2 ^ 600, 0, 0)]"

definition cloud_far5 :: "Point list" where
  "cloud_far5 = [(- 3, 0, 0), (- 2, 0, 0), (- 1, 0, 0), (0, 0, 0), (2 ^ 600, 0, 0)]"

definition nb_cloud_far5 :: "Point Point_set_neighborhood" where
  "nb_cloud_far5 =
     \<lparr>m_tree = Some \<lparr>tree_indices = [1, 0], traits = \<lparr>input = cloud_far5, point_map = id\<rparr>\<rparr>,
      m_distance = \<lparr>input = cloud_far5, point_map = id\<rparr>\<rparr>"

text \<open>The three-point cloud simplified with the voxel size \<open>-1\<close>.\<close>

definition nb_cloud3_neg :: "Point Point_set_neighborhood" where
  "nb_cloud3_neg =
     \<lparr>m_tree = Some \<lparr>tree_indices = [1, 2, 0], traits = \<lparr>input = cloud3, point_map = id\<rparr>\<rparr>,
      m_distance = \<lparr>input = cloud3, point_map = id\<rparr>\<rparr>"

text \<open>A cloud with a coordinate beyond the range of a 64-bit signed integer.\<close>

definition cloud_wide :: "Point list" where
  "cloud_wide = [(2 ^ 64, 0, 0), (0, 0, 0)]"

definition nb_cloud_wide :: "Point Point_set_neighborhood" where
  "nb_cloud_wide =
     \<lparr>m_tree = Some \<lparr>tree_indices = [1, 0], traits = \<lparr>input = cloud_wide, point_map = id\<rparr>\<rparr>,
      m_distance = \<lparr>input = cloud_wide, point_map = id\<rparr>\<rparr>"

section \<open>Auxiliary facts\<close>

lemma built_tree:
  assumes "Point_set_neighborhood_full inp pm = Inr nb
           \<or> Point_set_neighborhood_voxel inp pm s = Inr nb"
  shows "\<exists>I. m_tree nb = Some \<lparr>tree_indices = I, traits = \<lparr>input = inp, point_map = pm\<rparr>\<rparr>
           \<and> m_distance nb = \<lparr>input = inp, point_map = pm\<rparr> \<and> index_set nb = I"
  using assms
  by (auto simp: Point_set_neighborhood_full_def Point_set_neighborhood_voxel_def
      index_set_def Let_def)

lemma get_simp: "get \<lparr>input = inp, point_map = pm\<rparr> i = pm (inp ! i)"
  by (simp add: get_def)

lemma euclidean_le_iff:
  "euclidean_distance p q \<le> euclidean_distance p' q'
     \<longleftrightarrow> squared_distance p q \<le> squared_distance p' q'"
  by (simp add: euclidean_distance_def)

lemma euclidean_eq_iff:
  "euclidean_distance p q = euclidean_distance p' q'
     \<longleftrightarrow> squared_distance p q = squared_distance p' q'"
  by (simp add: euclidean_distance_def)

lemma euclidean_le_radius:
  assumes "0 \<le> r"
  shows "euclidean_distance p q \<le> r \<longleftrightarrow> squared_distance p q \<le> r * r"
proof -
  have "sqrt (squared_distance p q) \<le> r \<longleftrightarrow> sqrt (squared_distance p q) \<le> sqrt (r * r)"
    using assms by simp
  also have "\<dots> \<longleftrightarrow> squared_distance p q \<le> r * r"
    by (rule real_sqrt_le_iff)
  finally show ?thesis by (simp add: euclidean_distance_def)
qed

text \<open>A prefix of a list sorted by a key holds the smallest keys.\<close>

lemma sorted_key_take_drop:
  fixes f :: "'b \<Rightarrow> 'c::linorder"
  assumes "a \<in> set (take m (sort_key f xs))" and "b \<in> set xs"
    and "b \<notin> set (take m (sort_key f xs))"
  shows "f a \<le> f b"
proof -
  let ?S = "sort_key f xs"
  have "b \<in> set ?S" using assms(2) by simp
  then have "b \<in> set (take m ?S) \<union> set (drop m ?S)"
    by (metis append_take_drop_id set_append)
  then have b: "b \<in> set (drop m ?S)" using assms(3) by simp
  have "sorted (map f ?S)" by simp
  then have "sorted (map f (take m ?S) @ map f (drop m ?S))"
    by (metis append_take_drop_id map_append)
  then have "\<forall>u\<in>set (take m ?S). \<forall>v\<in>set (drop m ?S). f u \<le> f v"
    by (simp add: sorted_append)
  then show ?thesis using assms(1) b by blast
qed

lemma Knn_nearest:
  assumes "i \<in> set (Knn t q n dst)" and "j \<in> set (tree_indices t)"
    and "j \<notin> set (Knn t q n dst)"
  shows "squared_distance (get dst i) q \<le> squared_distance (get dst j) q"
proof -
  have "(squared_distance (get dst i) q, i) \<le> (squared_distance (get dst j) q, j)"
    using assms unfolding Knn_def by (rule sorted_key_take_drop)
  then show ?thesis by (auto simp: less_eq_prod_def)
qed

lemma Knn_sorted:
  "sorted (map (\<lambda>i. (squared_distance (get dst i) q, i)) (Knn t q n dst))"
  unfolding Knn_def by (simp add: take_map [symmetric])

lemma Knn_length: "length (Knn t q n dst) = min (unat n) (length (tree_indices t))"
  by (simp add: Knn_def)

lemma Knn_all:
  assumes "length (tree_indices t) \<le> unat n"
  shows "mset (Knn t q n dst) = mset (tree_indices t)"
  using assms by (simp add: Knn_def)

lemma K_apply_built:
  assumes "m_tree nb = Some t"
  shows "K_neighbor_query_apply (k_neighbor_query nb n) q
           = Inr (No_status, Knn t q (ucast n) (m_distance nb))"
  using assms by (simp add: K_neighbor_query_apply_def k_neighbor_query_def k_neighbors_def)

lemmas eval_defs =
  K_neighbor_query_apply_def k_neighbor_query_def k_neighbors_def Knn_def
  Range_neighbor_query_apply_def range_neighbor_query_def range_neighbors_def search_def
  Point_set_neighborhood_full_def Point_set_neighborhood_voxel_def index_set_def
  voxelize_point_set_def representative_def centroid_def double_max_def voxel_ref_def
  get_def squared_distance_def coord_x_def coord_y_def coord_z_def Let_def

section \<open>The tree pointer\<close>

text \<open>
  C10. Either public constructor returns a neighborhood whose tree pointer is not null.
  The queries are \<^verbatim>\<open>const\<close> members: they return their output and leave the object as it
  is, so the pointer stays what the constructor made it, and the assertion that guards
  \<open>range_neighbors\<close> and \<open>k_neighbors\<close> holds on every query of a built neighborhood.
  Only the default constructor leaves the pointer null, and there the assertion fails.
\<close>

theorem m_tree_not_null:
  "(\<exists>nb. Point_set_neighborhood_full inp pm = Inr nb \<and> m_tree nb \<noteq> None
      \<and> (\<forall>q r. range_neighbors nb q r \<noteq> Inl Assertion_violation)
      \<and> (\<forall>q n. k_neighbors nb q n \<noteq> Inl Assertion_violation))
   \<and> (\<exists>nb. Point_set_neighborhood_voxel inp pm s = Inr nb \<and> m_tree nb \<noteq> None
      \<and> (\<forall>q r. range_neighbors nb q r \<noteq> Inl Assertion_violation)
      \<and> (\<forall>q n. k_neighbors nb q n \<noteq> Inl Assertion_violation))
   \<and> m_tree (Point_set_neighborhood_default pmap0) = None
   \<and> range_neighbors (Point_set_neighborhood_default pmap0) q' r' = Inl Assertion_violation
   \<and> k_neighbors (Point_set_neighborhood_default pmap0) q' n' = Inl Assertion_violation"
  by (simp add: Point_set_neighborhood_full_def Point_set_neighborhood_voxel_def
      Point_set_neighborhood_default_def range_neighbors_def k_neighbors_def Let_def)

section \<open>The k-nearest-neighbour query\<close>

text \<open>
  C1. On a neighborhood built by either constructor, the k-neighbour functor applied to a
  query point \<open>q\<close> returns a sequence \<open>R\<close> of indices such that every emitted index is at
  least as close to \<open>q\<close>, in Euclidean distance, as every index of the index set that was
  not emitted. This holds for every count, in particular for \<open>1 \<le> k \<le> |I|\<close>.
\<close>

theorem k_nn_correctness:
  assumes "Point_set_neighborhood_full inp pm = Inr nb
           \<or> Point_set_neighborhood_voxel inp pm s = Inr nb"
  shows "\<exists>st R. K_neighbor_query_apply (k_neighbor_query nb n) q = Inr (st, R)
           \<and> (\<forall>i\<in>set R. \<forall>j\<in>set (index_set nb) - set R.
                 euclidean_distance (pm (inp ! i)) q \<le> euclidean_distance (pm (inp ! j)) q)"
proof -
  let ?P = "\<lparr>input = inp, point_map = pm\<rparr>"
  from built_tree [OF assms] obtain I where
    t: "m_tree nb = Some \<lparr>tree_indices = I, traits = ?P\<rparr>"
    and d: "m_distance nb = ?P" and I: "index_set nb = I"
    by blast
  let ?t = "\<lparr>tree_indices = I, traits = ?P\<rparr>"
  let ?R = "Knn ?t q (ucast n) ?P"
  have "K_neighbor_query_apply (k_neighbor_query nb n) q = Inr (No_status, ?R)"
    using K_apply_built [OF t] d by simp
  moreover have "\<forall>i\<in>set ?R. \<forall>j\<in>set I - set ?R.
      euclidean_distance (pm (inp ! i)) q \<le> euclidean_distance (pm (inp ! j)) q"
    using Knn_nearest [of _ ?t q "ucast n" ?P] by (auto simp: euclidean_le_iff get_simp)
  ultimately show ?thesis using I by blast
qed

theorem k_nn_correctness_witness:
  "Point_set_neighborhood_full cloud3 id = Inr nb_cloud3
   \<and> K_neighbor_query_apply (k_neighbor_query nb_cloud3 2) (0, 0, 0) = Inr (No_status, [0, 2])
   \<and> index_set nb_cloud3 = [0, 1, 2]
   \<and> euclidean_distance (cloud3 ! 2) (0, 0, 0) \<le> euclidean_distance (cloud3 ! 1) (0, 0, 0)"
proof -
  have b: "Point_set_neighborhood_full cloud3 id = Inr nb_cloud3"
    by (simp add: Point_set_neighborhood_full_def nb_cloud3_def cloud3_def Let_def)
  have e: "K_neighbor_query_apply (k_neighbor_query nb_cloud3 2) (0, 0, 0)
             = Inr (No_status, [0, 2])"
    by (simp add: eval_defs nb_cloud3_def cloud3_def)
  have I: "index_set nb_cloud3 = [0, 1, 2]"
    by (simp add: index_set_def nb_cloud3_def)
  from k_nn_correctness [OF disjI1, OF b, of 2 "(0, 0, 0)"] e I
  have "\<forall>i\<in>set [0, 2]. \<forall>j\<in>set [0, 1, 2] - set [0, 2::nat].
          euclidean_distance (id (cloud3 ! i)) (0, 0, 0)
            \<le> euclidean_distance (id (cloud3 ! j)) (0, 0, 0)"
    by simp
  then have "euclidean_distance (cloud3 ! 2) (0, 0, 0) \<le> euclidean_distance (cloud3 ! 1) (0, 0, 0)"
    by simp
  with b e I show ?thesis by simp
qed

text \<open>
  C3. The sequence emitted by the k-neighbour functor is in non-decreasing order of
  Euclidean distance to the query point, and of two emitted indices whose points are at
  the same distance the one emitted first is the smaller (or the same) index.
\<close>

theorem k_nn_ordering:
  assumes "Point_set_neighborhood_full inp pm = Inr nb
           \<or> Point_set_neighborhood_voxel inp pm s = Inr nb"
  shows "\<exists>st R. K_neighbor_query_apply (k_neighbor_query nb n) q = Inr (st, R)
           \<and> sorted (map (\<lambda>i. euclidean_distance (pm (inp ! i)) q) R)
           \<and> (\<forall>a b. a < b \<and> b < length R
                 \<and> euclidean_distance (pm (inp ! (R ! a))) q
                     = euclidean_distance (pm (inp ! (R ! b))) q
                 \<longrightarrow> R ! a \<le> R ! b)"
proof -
  let ?P = "\<lparr>input = inp, point_map = pm\<rparr>"
  from built_tree [OF assms] obtain I where
    t: "m_tree nb = Some \<lparr>tree_indices = I, traits = ?P\<rparr>"
    and d: "m_distance nb = ?P"
    by blast
  let ?t = "\<lparr>tree_indices = I, traits = ?P\<rparr>"
  let ?R = "Knn ?t q (ucast n) ?P"
  let ?key = "\<lambda>i. (squared_distance (pm (inp ! i)) q, i)"
  have e: "K_neighbor_query_apply (k_neighbor_query nb n) q = Inr (No_status, ?R)"
    using K_apply_built [OF t] d by simp
  have srt: "sorted (map ?key ?R)"
    using Knn_sorted [of ?P q ?t "ucast n"] by (simp add: get_simp)
  have mono: "squared_distance (pm (inp ! (?R ! a))) q \<le> squared_distance (pm (inp ! (?R ! b))) q
      \<and> (squared_distance (pm (inp ! (?R ! a))) q = squared_distance (pm (inp ! (?R ! b))) q
           \<longrightarrow> ?R ! a \<le> ?R ! b)"
    if "a < b" "b < length ?R" for a b
  proof -
    have "?key (?R ! a) \<le> ?key (?R ! b)"
      using sorted_nth_mono [OF srt, of a b] that by simp
    then show ?thesis by (auto simp: less_eq_prod_def)
  qed
  have 1: "sorted (map (\<lambda>i. euclidean_distance (pm (inp ! i)) q) ?R)"
    unfolding sorted_iff_nth_mono_less using mono by (simp add: euclidean_le_iff)
  have 2: "\<forall>a b. a < b \<and> b < length ?R
                 \<and> euclidean_distance (pm (inp ! (?R ! a))) q
                     = euclidean_distance (pm (inp ! (?R ! b))) q
                 \<longrightarrow> ?R ! a \<le> ?R ! b"
    using mono by (simp add: euclidean_eq_iff)
  from e 1 2 show ?thesis by blast
qed

theorem k_nn_ordering_witness:
  "Point_set_neighborhood_full cloud_ties id = Inr nb_cloud_ties
   \<and> K_neighbor_query_apply (k_neighbor_query nb_cloud_ties 3) (0, 0, 0)
        = Inr (No_status, [0, 1, 2])
   \<and> sorted (map (\<lambda>i. euclidean_distance (cloud_ties ! i) (0, 0, 0)) [0, 1, 2])
   \<and> (1 :: nat) < 2 \<and> 2 < length [0, 1, 2 :: nat]
   \<and> euclidean_distance (cloud_ties ! ([0, 1, 2] ! 1)) (0, 0, 0)
        = euclidean_distance (cloud_ties ! ([0, 1, 2] ! 2)) (0, 0, 0)
   \<and> [0, 1, 2 :: nat] ! 1 \<le> [0, 1, 2] ! 2"
proof -
  have b: "Point_set_neighborhood_full cloud_ties id = Inr nb_cloud_ties"
    by (simp add: Point_set_neighborhood_full_def nb_cloud_ties_def cloud_ties_def Let_def)
  have e: "K_neighbor_query_apply (k_neighbor_query nb_cloud_ties 3) (0, 0, 0)
             = Inr (No_status, [0, 1, 2])"
    by (simp add: eval_defs nb_cloud_ties_def cloud_ties_def)
  have tie: "euclidean_distance (cloud_ties ! ([0, 1, 2] ! 1)) (0, 0, 0)
               = euclidean_distance (cloud_ties ! ([0, 1, 2] ! 2)) (0, 0, 0)"
    by (simp add: euclidean_distance_def squared_distance_def cloud_ties_def
        coord_x_def coord_y_def coord_z_def)
  from k_nn_ordering [OF disjI1, OF b, of 3 "(0, 0, 0)"] e
  have srt: "sorted (map (\<lambda>i. euclidean_distance (id (cloud_ties ! i)) (0, 0, 0)) [0, 1, 2])"
    and ties: "\<forall>a b. a < b \<and> b < length [0, 1, 2 :: nat]
                 \<and> euclidean_distance (id (cloud_ties ! ([0, 1, 2] ! a))) (0, 0, 0)
                     = euclidean_distance (id (cloud_ties ! ([0, 1, 2] ! b))) (0, 0, 0)
                 \<longrightarrow> [0, 1, 2 :: nat] ! a \<le> [0, 1, 2] ! b"
    by simp_all
  from ties [rule_format, of 1 2] tie have "[0, 1, 2 :: nat] ! 1 \<le> [0, 1, 2] ! 2"
    by simp
  with srt tie b e show ?thesis by simp
qed

section \<open>The range query\<close>

text \<open>
  C2. For a radius \<open>r \<ge> 0\<close>, the range functor (which forwards with tolerance 0) emits,
  as a set, exactly the indices of the index set whose point is at Euclidean distance at
  most \<open>r\<close> from the query point.
\<close>

theorem range_completeness:
  assumes "Point_set_neighborhood_full inp pm = Inr nb
           \<or> Point_set_neighborhood_voxel inp pm s = Inr nb"
    and "0 \<le> r"
  shows "\<exists>out. Range_neighbor_query_apply (range_neighbor_query nb r) q = Inr out
           \<and> set out = {i \<in> set (index_set nb). euclidean_distance (pm (inp ! i)) q \<le> r}"
proof -
  let ?P = "\<lparr>input = inp, point_map = pm\<rparr>"
  from built_tree [OF assms(1)] obtain I where
    t: "m_tree nb = Some \<lparr>tree_indices = I, traits = ?P\<rparr>" and I: "index_set nb = I"
    by blast
  let ?out = "search \<lparr>tree_indices = I, traits = ?P\<rparr> q r 0"
  have "Range_neighbor_query_apply (range_neighbor_query nb r) q = Inr ?out"
    by (simp add: Range_neighbor_query_apply_def range_neighbor_query_def range_neighbors_def t)
  moreover have "set ?out = {i \<in> set I. euclidean_distance (pm (inp ! i)) q \<le> r}"
    by (simp add: search_def get_simp euclidean_le_radius [OF assms(2)])
  ultimately show ?thesis using I by blast
qed

theorem range_completeness_witness:
  "Point_set_neighborhood_full cloud3 id = Inr nb_cloud3 \<and> (0::real) \<le> 1
   \<and> Range_neighbor_query_apply (range_neighbor_query nb_cloud3 1) (0, 0, 0) = Inr [0, 2]
   \<and> set [0, 2] = {i \<in> set (index_set nb_cloud3). euclidean_distance (cloud3 ! i) (0, 0, 0) \<le> 1}"
proof -
  have b: "Point_set_neighborhood_full cloud3 id = Inr nb_cloud3"
    by (simp add: Point_set_neighborhood_full_def nb_cloud3_def cloud3_def Let_def)
  have e: "Range_neighbor_query_apply (range_neighbor_query nb_cloud3 1) (0, 0, 0) = Inr [0, 2]"
    by (simp add: eval_defs nb_cloud3_def cloud3_def)
  from range_completeness [OF disjI1, OF b, of 1 "(0, 0, 0)"] e
  have "set [0, 2] = {i \<in> set (index_set nb_cloud3). euclidean_distance (id (cloud3 ! i)) (0, 0, 0) \<le> 1}"
    by simp
  with b e show ?thesis by simp
qed

section \<open>The narrowing of the neighbour count\<close>

text \<open>
  C9. \<open>k_neighbors\<close> casts its 64-bit count to \<^verbatim>\<open>unsigned int\<close>, so the search is asked
  for \<open>k mod 2 ^ 32\<close> neighbours and emits \<open>min (k mod 2 ^ 32) |I|\<close> indices; for a count
  above the largest \<^verbatim>\<open>unsigned int\<close> this differs from \<open>min k |I|\<close>, as the evaluation at
  \<open>k = 2 ^ 32 + 1\<close> on three points shows.
\<close>

theorem k_narrowed_to_unsigned_int:
  assumes "Point_set_neighborhood_full inp pm = Inr nb
           \<or> Point_set_neighborhood_voxel inp pm s = Inr nb"
  shows "\<exists>st R. K_neighbor_query_apply (k_neighbor_query nb n) q = Inr (st, R)
           \<and> length R = min (unat n mod 2 ^ 32) (length (index_set nb))"
proof -
  let ?P = "\<lparr>input = inp, point_map = pm\<rparr>"
  from built_tree [OF assms] obtain I where
    t: "m_tree nb = Some \<lparr>tree_indices = I, traits = ?P\<rparr>" and I: "index_set nb = I"
    by blast
  have "unat (ucast n :: 32 word) = unat n mod 2 ^ 32"
    by (simp add: unsigned_ucast_eq take_bit_eq_mod unat_mod_distrib)
  then show ?thesis
    using K_apply_built [OF t, of n q] I by (simp add: Knn_length)
qed

theorem k_narrowed_to_unsigned_int_witness:
  "Point_set_neighborhood_full cloud3 id = Inr nb_cloud3
   \<and> K_neighbor_query_apply (k_neighbor_query nb_cloud3 4294967297) (0, 0, 0)
        = Inr (No_status, [0])
   \<and> length [0::nat] = min (unat (4294967297 :: 64 word) mod 2 ^ 32) (length (index_set nb_cloud3))
   \<and> length [0::nat] \<noteq> min (unat (4294967297 :: 64 word)) (length (index_set nb_cloud3))"
proof -
  have b: "Point_set_neighborhood_full cloud3 id = Inr nb_cloud3"
    by (simp add: Point_set_neighborhood_full_def nb_cloud3_def cloud3_def Let_def)
  have e: "K_neighbor_query_apply (k_neighbor_query nb_cloud3 4294967297) (0, 0, 0)
             = Inr (No_status, [0])"
    by (simp add: eval_defs nb_cloud3_def cloud3_def)
  have I: "length (index_set nb_cloud3) = 3"
    by (simp add: index_set_def nb_cloud3_def)
  from k_narrowed_to_unsigned_int [OF disjI1, OF b, of 4294967297 "(0, 0, 0)"] e
  have "length [0::nat] = min (unat (4294967297 :: 64 word) mod 2 ^ 32) (length (index_set nb_cloud3))"
    by simp
  moreover have "length [0::nat] \<noteq> min (unat (4294967297 :: 64 word)) (length (index_set nb_cloud3))"
    by (simp add: I)
  ultimately show ?thesis using b e by simp
qed

section \<open>The number of emitted indices and the query status\<close>

text \<open>
  C6, as stated, fails. On the three-point cloud a query for ten neighbours emits the
  three indices, and what the caller receives carries no \<open>UnderfullResult\<close>: the functor
  returns nothing beside the emitted indices. And a query for \<open>2 ^ 32 + 2\<close> neighbours
  emits two indices, not \<open>min k |I| = 3\<close>.
\<close>

theorem underfull_not_signalled:
  "Point_set_neighborhood_full cloud3 id = Inr nb_cloud3
   \<and> length (index_set nb_cloud3) = 3 \<and> 3 < unat (10 :: 64 word)
   \<and> K_neighbor_query_apply (k_neighbor_query nb_cloud3 10) (0, 0, 0)
        = Inr (No_status, [0, 2, 1])
   \<and> No_status \<noteq> UnderfullResult
   \<and> K_neighbor_query_apply (k_neighbor_query nb_cloud3 4294967298) (0, 0, 0)
        = Inr (No_status, [0, 2])
   \<and> length [0, 2 :: nat] \<noteq> min (unat (4294967298 :: 64 word)) (length (index_set nb_cloud3))"
  by (simp add: eval_defs nb_cloud3_def cloud3_def)

text \<open>
  C6, amended. For a count below \<open>2 ^ 32\<close> the k-neighbour functor emits
  \<open>min k |I|\<close> indices, which are all the indices of the index set when \<open>k > |I|\<close>, and
  no status is signalled with them.
\<close>

theorem k_nn_count:
  assumes "Point_set_neighborhood_full inp pm = Inr nb
           \<or> Point_set_neighborhood_voxel inp pm s = Inr nb"
    and "unat n < 2 ^ 32"
  shows "\<exists>R. K_neighbor_query_apply (k_neighbor_query nb n) q = Inr (No_status, R)
           \<and> length R = min (unat n) (length (index_set nb))
           \<and> (length (index_set nb) < unat n \<longrightarrow> mset R = mset (index_set nb))"
proof -
  let ?P = "\<lparr>input = inp, point_map = pm\<rparr>"
  from built_tree [OF assms(1)] obtain I where
    t: "m_tree nb = Some \<lparr>tree_indices = I, traits = ?P\<rparr>" and I: "index_set nb = I"
    by blast
  have u: "unat (ucast n :: 32 word) = unat n"
    using assms(2) by (simp add: unsigned_ucast_eq take_bit_eq_mod unat_mod_distrib)
  let ?R = "Knn \<lparr>tree_indices = I, traits = ?P\<rparr> q (ucast n) (m_distance nb)"
  have "K_neighbor_query_apply (k_neighbor_query nb n) q = Inr (No_status, ?R)"
    by (rule K_apply_built [OF t])
  moreover have "length ?R = min (unat n) (length I)"
    by (simp add: Knn_length u)
  moreover have "length I < unat n \<longrightarrow> mset ?R = mset I"
    using Knn_all [of "\<lparr>tree_indices = I, traits = ?P\<rparr>" "ucast n" q "m_distance nb"]
    by (simp add: u)
  ultimately show ?thesis using I by blast
qed

theorem k_nn_count_witness:
  "Point_set_neighborhood_full cloud3 id = Inr nb_cloud3 \<and> unat (10 :: 64 word) < 2 ^ 32
   \<and> K_neighbor_query_apply (k_neighbor_query nb_cloud3 10) (0, 0, 0)
        = Inr (No_status, [0, 2, 1])
   \<and> length [0, 2, 1 :: nat] = min (unat (10 :: 64 word)) (length (index_set nb_cloud3))
   \<and> length (index_set nb_cloud3) < unat (10 :: 64 word)
   \<and> mset [0, 2, 1] = mset (index_set nb_cloud3)"
proof -
  have b: "Point_set_neighborhood_full cloud3 id = Inr nb_cloud3"
    by (simp add: Point_set_neighborhood_full_def nb_cloud3_def cloud3_def Let_def)
  have n: "unat (10 :: 64 word) < 2 ^ 32" by simp
  have e: "K_neighbor_query_apply (k_neighbor_query nb_cloud3 10) (0, 0, 0)
             = Inr (No_status, [0, 2, 1])"
    by (simp add: eval_defs nb_cloud3_def cloud3_def)
  have l: "length (index_set nb_cloud3) < unat (10 :: 64 word)"
    by (simp add: index_set_def nb_cloud3_def)
  from k_nn_count [OF disjI1, OF b n, of "(0, 0, 0)"] e l
  have "length [0, 2, 1 :: nat] = min (unat (10 :: 64 word)) (length (index_set nb_cloud3))
        \<and> mset [0, 2, 1] = mset (index_set nb_cloud3)"
    by simp
  with b n e l show ?thesis by simp
qed

section \<open>Properties of the voxel simplification\<close>

subsection \<open>The choice of the representative\<close>

text \<open>
  The inner loop keeps the first index whose squared distance to the centroid is the
  least, provided that some squared distance is below the initial \<open>min_dist\<close>; when none
  is, \<open>chosen\<close> keeps its initial value.
\<close>

lemma closest_loop_unchanged:
  "\<forall>i\<in>set pts. \<not> squared_distance (get P i) c < m
     \<Longrightarrow> closest_loop P c pts chosen m = chosen"
  by (induction pts arbitrary: chosen m) (simp_all add: Let_def)

lemma closest_loop_first_min:
  assumes "\<exists>i\<in>set pts. squared_distance (get P i) c < m"
  shows "\<exists>us vs. pts = us @ closest_loop P c pts chosen m # vs
           \<and> squared_distance (get P (closest_loop P c pts chosen m)) c < m
           \<and> (\<forall>u\<in>set us. squared_distance (get P (closest_loop P c pts chosen m)) c
                             < squared_distance (get P u) c)
           \<and> (\<forall>v\<in>set vs. squared_distance (get P (closest_loop P c pts chosen m)) c
                             \<le> squared_distance (get P v) c)"
  using assms
proof (induction pts arbitrary: chosen m)
  case Nil
  then show ?case by simp
next
  case (Cons i pts)
  let ?d = "\<lambda>j. squared_distance (get P j) c"
  show ?case
  proof (cases "?d i < m")
    case True
    then have step: "closest_loop P c (i # pts) chosen m = closest_loop P c pts i (?d i)"
      by (simp add: Let_def)
    show ?thesis
    proof (cases "\<exists>j\<in>set pts. ?d j < ?d i")
      case better: True
      let ?r = "closest_loop P c pts i (?d i)"
      from Cons.IH [OF better, of i] obtain us vs where
        "pts = us @ ?r # vs" "?d ?r < ?d i" "\<forall>u\<in>set us. ?d ?r < ?d u" "\<forall>v\<in>set vs. ?d ?r \<le> ?d v"
        by blast
      then have "i # pts = (i # us) @ ?r # vs \<and> ?d ?r < m
          \<and> (\<forall>u\<in>set (i # us). ?d ?r < ?d u) \<and> (\<forall>v\<in>set vs. ?d ?r \<le> ?d v)"
        using True by simp
      then show ?thesis unfolding step by blast
    next
      case False
      then have "closest_loop P c pts i (?d i) = i"
        by (intro closest_loop_unchanged) simp
      then have r: "closest_loop P c (i # pts) chosen m = i" using step by simp
      have "i # pts = [] @ i # pts \<and> ?d i < m \<and> (\<forall>u\<in>set []. ?d i < ?d u)
          \<and> (\<forall>v\<in>set pts. ?d i \<le> ?d v)"
        using True False by (simp add: not_less)
      then show ?thesis unfolding r by blast
    qed
  next
    case False
    then have step: "closest_loop P c (i # pts) chosen m = closest_loop P c pts chosen m"
      by (simp add: Let_def)
    let ?r = "closest_loop P c pts chosen m"
    from Cons.prems False have "\<exists>j\<in>set pts. ?d j < m" by auto
    from Cons.IH [OF this, of chosen] obtain us vs where
      "pts = us @ ?r # vs" "?d ?r < m" "\<forall>u\<in>set us. ?d ?r < ?d u" "\<forall>v\<in>set vs. ?d ?r \<le> ?d v"
      by blast
    then have "i # pts = (i # us) @ ?r # vs \<and> ?d ?r < m
        \<and> (\<forall>u\<in>set (i # us). ?d ?r < ?d u) \<and> (\<forall>v\<in>set vs. ?d ?r \<le> ?d v)"
      using False by simp
    then show ?thesis unfolding step by blast
  qed
qed

lemma representative_closest:
  assumes "\<exists>i\<in>set pts. squared_distance (get P i) (centroid (map (get P) pts)) < double_max"
  shows "\<exists>us vs. pts = us @ representative P pts # vs
     \<and> (\<forall>u\<in>set us. squared_distance (get P (representative P pts)) (centroid (map (get P) pts))
                        < squared_distance (get P u) (centroid (map (get P) pts)))
     \<and> (\<forall>v\<in>set vs. squared_distance (get P (representative P pts)) (centroid (map (get P) pts))
                        \<le> squared_distance (get P v) (centroid (map (get P) pts)))"
  using closest_loop_first_min [OF assms, of 0] unfolding representative_def by blast

lemma representative_overflow:
  assumes "\<forall>i\<in>set pts. \<not> squared_distance (get P i) (centroid (map (get P) pts)) < double_max"
  shows "representative P pts = 0"
  unfolding representative_def using assms by (rule closest_loop_unchanged)

subsection \<open>The voxel size\<close>

text \<open>
  C5, as stated, fails: the simplifying constructor accepts the voxel size \<open>-1\<close> and
  builds a neighborhood over three representatives.
\<close>

theorem negative_voxel_size_accepted:
  "(- 1 :: real) \<le> 0
   \<and> Point_set_neighborhood_voxel cloud3 id (- 1) = Inr nb_cloud3_neg
   \<and> Point_set_neighborhood_voxel cloud3 id (- 1) \<noteq> Inl InvalidVoxelSize"
  by (simp add: eval_defs nb_cloud3_neg_def cloud3_def)

text \<open>
  C5, amended. The voxel size is not validated: for every voxel size other than zero,
  negative sizes included, the simplifying constructor returns a neighborhood, whose index
  set is the result of the voxel simplification with that size, and reports no
  \<open>InvalidVoxelSize\<close>. (With the size zero the quotients of the header are infinite or
  not numbers; that case is left open here.)
\<close>

theorem voxel_size_not_validated:
  assumes "s \<noteq> 0"
  shows "\<exists>nb. Point_set_neighborhood_voxel inp pm s = Inr nb
           \<and> index_set nb = voxelize_point_set [0 ..< length inp] \<lparr>input = inp, point_map = pm\<rparr> s"
  by (simp add: Point_set_neighborhood_voxel_def index_set_def Let_def)

theorem voxel_size_not_validated_witness:
  "(- 1 :: real) \<noteq> 0
   \<and> Point_set_neighborhood_voxel cloud3 id (- 1) = Inr nb_cloud3_neg
   \<and> index_set nb_cloud3_neg = voxelize_point_set [0 ..< length cloud3] \<lparr>input = cloud3, point_map = id\<rparr> (- 1)"
proof -
  have s: "(- 1 :: real) \<noteq> 0" by simp
  have e: "Point_set_neighborhood_voxel cloud3 id (- 1) = Inr nb_cloud3_neg"
    by (simp add: eval_defs nb_cloud3_neg_def cloud3_def)
  from voxel_size_not_validated [OF s, of cloud3 id] e
  have "index_set nb_cloud3_neg
          = voxelize_point_set [0 ..< length cloud3] \<lparr>input = cloud3, point_map = id\<rparr> (- 1)"
    by simp
  with s e show ?thesis by simp
qed

subsection \<open>The voxel key\<close>

text \<open>
  C7, as stated, fails: a point whose cell coordinate \<open>2 ^ 64\<close> is beyond a 64-bit signed
  key is accepted by the simplifying constructor.
\<close>

theorem key_overflow_not_reported:
  "voxel_key_overflows (cloud_wide ! 0) 1
   \<and> Point_set_neighborhood_voxel cloud_wide id 1 = Inr nb_cloud_wide
   \<and> Point_set_neighborhood_voxel cloud_wide id 1 \<noteq> Inl CoordinateOverflow"
  by (simp add: eval_defs voxel_key_overflows_def int64_overflow_def nb_cloud_wide_def
      cloud_wide_def)

text \<open>
  C7, amended. The simplifying constructor never reports \<open>CoordinateOverflow\<close>: for every
  input and every voxel size other than zero it returns a neighborhood, also when the
  cell coordinate of some point is outside the range of a 64-bit signed key, and all the
  more when every key fits. The header has no integer key and no overflow test. Whether
  two different cells can come to share a key is left open.
\<close>

theorem coordinate_overflow_never_reported:
  assumes "s \<noteq> 0"
  shows "Point_set_neighborhood_voxel inp pm s \<noteq> Inl CoordinateOverflow
     \<and> (\<exists>nb. Point_set_neighborhood_voxel inp pm s = Inr nb)"
  by (simp add: Point_set_neighborhood_voxel_def Let_def)

theorem coordinate_overflow_never_reported_witness:
  "(1 :: real) \<noteq> 0
   \<and> voxel_key_overflows (cloud_wide ! 0) 1
   \<and> Point_set_neighborhood_voxel cloud_wide id 1 \<noteq> Inl CoordinateOverflow
   \<and> Point_set_neighborhood_voxel cloud_wide id 1 = Inr nb_cloud_wide
   \<and> \<not> voxel_key_overflows (cloud3 ! 0) 1 \<and> \<not> voxel_key_overflows (cloud3 ! 1) 1
   \<and> \<not> voxel_key_overflows (cloud3 ! 2) 1
   \<and> Point_set_neighborhood_voxel cloud3 id 1 \<noteq> Inl CoordinateOverflow"
proof -
  have s: "(1 :: real) \<noteq> 0" by simp
  have o: "voxel_key_overflows (cloud_wide ! 0) 1"
    by (simp add: voxel_key_overflows_def int64_overflow_def coord_x_def cloud_wide_def)
  have fits: "\<not> voxel_key_overflows (cloud3 ! 0) 1" "\<not> voxel_key_overflows (cloud3 ! 1) 1"
    "\<not> voxel_key_overflows (cloud3 ! 2) 1"
    by (simp_all add: voxel_key_overflows_def int64_overflow_def coord_x_def coord_y_def
        coord_z_def cloud3_def)
  have e: "Point_set_neighborhood_voxel cloud_wide id 1 = Inr nb_cloud_wide"
    by (simp add: eval_defs nb_cloud_wide_def cloud_wide_def)
  from coordinate_overflow_never_reported [OF s, of cloud_wide id]
  have 1: "Point_set_neighborhood_voxel cloud_wide id 1 \<noteq> Inl CoordinateOverflow"
    by blast
  from coordinate_overflow_never_reported [OF s, of cloud3 id]
  have 2: "Point_set_neighborhood_voxel cloud3 id 1 \<noteq> Inl CoordinateOverflow"
    by blast
  from s o fits e 1 2 show ?thesis by simp
qed

subsection \<open>Representatives\<close>

text \<open>
  C4 does not hold of the header. In the cloud \<open>cloud_far\<close> with voxel size \<open>2 ^ 700\<close> the
  cell \<open>(0, 0, 0)\<close> has the group \<open>[1, 2]\<close> and the centroid \<open>(2 ^ 599, 0, 0)\<close>; both squared
  distances to it are \<open>2 ^ 1198\<close>, neither is below the initial
  \<open>min_dist = double_max\<close>, so \<open>chosen\<close> stays at its initial value 0, which is not an
  index of the group.
\<close>

theorem representative_outside_group:
  "fill_grid \<lparr>input = cloud_far, point_map = id\<rparr> (2 ^ 700) [0, 1, 2] []
     = [((- 1, 0, 0), [0]), ((0, 0, 0), [1, 2])]
   \<and> centroid (map (get \<lparr>input = cloud_far, point_map = id\<rparr>) [1, 2]) = (2 ^ 599, 0, 0)
   \<and> squared_distance (get \<lparr>input = cloud_far, point_map = id\<rparr> 1) (2 ^ 599, 0, 0) = 2 ^ 1198
   \<and> squared_distance (get \<lparr>input = cloud_far, point_map = id\<rparr> 2) (2 ^ 599, 0, 0) = 2 ^ 1198
   \<and> double_max < 2 ^ 1198
   \<and> representative \<lparr>input = cloud_far, point_map = id\<rparr> [1, 2] = 0
   \<and> 0 \<notin> set [1, 2 :: nat]
   \<and> voxelize_point_set [0, 1, 2] \<lparr>input = cloud_far, point_map = id\<rparr> (2 ^ 700) = [0, 0]"
  by (simp add: eval_defs cloud_far_def)

text \<open>
  C8 does not hold of the header, by the same defect. In the cloud \<open>cloud_far5\<close> the cell
  \<open>(-1, 0, 0)\<close> holds the indices 0, 1, 2 and is represented by 1; the cell \<open>(0, 0, 0)\<close>
  holds 3 and 4 and gets the representative 0 (the initial value of \<open>chosen\<close>). The
  resulting index set \<open>[1, 0]\<close> has two indices in the cell \<open>(-1, 0, 0)\<close>.
\<close>

theorem two_representatives_in_one_cell:
  "Point_set_neighborhood_voxel cloud_far5 id (2 ^ 700) = Inr nb_cloud_far5
   \<and> index_set nb_cloud_far5 = [1, 0]
   \<and> voxel_cell (cloud_far5 ! 1) (2 ^ 700) = (- 1, 0, 0)
   \<and> voxel_cell (cloud_far5 ! 0) (2 ^ 700) = (- 1, 0, 0)
   \<and> fill_grid \<lparr>input = cloud_far5, point_map = id\<rparr> (2 ^ 700) [0, 1, 2, 3, 4] []
        = [((- 1, 0, 0), [0, 1, 2]), ((0, 0, 0), [3, 4])]
   \<and> representative \<lparr>input = cloud_far5, point_map = id\<rparr> [3, 4] = 0"
  by (simp add: eval_defs voxel_cell_def cloud_far5_def nb_cloud_far5_def)

text \<open>
  The selection loop itself, on a group given in ascending order (the order in which the
  first loop pushes the indices) and with the squared distances and the centroid taken
  exactly: when some squared distance to the centroid is below \<open>double_max\<close>, the index
  it returns is in the group, at least squared distance from the centroid, and the
  smallest index at that distance.
\<close>

lemma sorted_first_min_least:
  fixes d :: "nat \<Rightarrow> real"
  assumes "sorted pts" and "pts = us @ r # vs" and "\<forall>u\<in>set us. d r < d u"
    and "j \<in> set pts" and "d j = d r"
  shows "r \<le> j"
proof -
  from assms(2,4) have "j \<in> set us \<or> j = r \<or> j \<in> set vs" by auto
  moreover have "j \<notin> set us" using assms(3,5) by auto
  moreover have "r \<le> j" if "j \<in> set vs"
    using assms(1) that unfolding assms(2) by (simp add: sorted_append)
  ultimately show ?thesis by auto
qed

lemma representative_closest_sorted:
  fixes P :: "'a My_point_property_map"
  assumes srt: "sorted G"
    and fin: "\<exists>i\<in>set G. squared_distance (get P i) (centroid (map (get P) G)) < double_max"
  shows "representative P G \<in> set G
     \<and> (\<forall>j\<in>set G. squared_distance (get P (representative P G)) (centroid (map (get P) G))
                      \<le> squared_distance (get P j) (centroid (map (get P) G)))
     \<and> (\<forall>j\<in>set G. squared_distance (get P j) (centroid (map (get P) G))
                        = squared_distance (get P (representative P G)) (centroid (map (get P) G))
                      \<longrightarrow> representative P G \<le> j)"
proof -
  let ?c = "centroid (map (get P) G)"
  let ?d = "\<lambda>j. squared_distance (get P j) ?c"
  let ?r = "representative P G"
  from representative_closest [OF fin] obtain us vs where
    G: "G = us @ ?r # vs" and us: "\<forall>u\<in>set us. ?d ?r < ?d u" and vs: "\<forall>v\<in>set vs. ?d ?r \<le> ?d v"
    by blast
  have 1: "?r \<in> set G" by (subst G) simp
  have 2: "\<forall>j\<in>set G. ?d ?r \<le> ?d j"
  proof
    fix j assume "j \<in> set G"
    then have "j \<in> set us \<or> j = ?r \<or> j \<in> set vs" by (subst (asm) G) auto
    then show "?d ?r \<le> ?d j" using us vs by (auto simp: less_imp_le)
  qed
  have 3: "\<forall>j\<in>set G. ?d j = ?d ?r \<longrightarrow> ?r \<le> j"
    using sorted_first_min_least [OF srt G us] by blast
  from 1 2 3 show ?thesis by blast
qed

end
